theory Spec2Isabelle
  imports Main "HOL-Library.Sublist"
begin

section \<open>Python values shared by both scripts\<close>

text \<open>
  Exceptions are values. Each constructor is the Python exception class of the same name
  and carries the message it is raised with; \<open>ExternalError\<close> stands for whatever an
  external library or the operating system raises (network, file system, PDF parsing, OCR,
  API client), tagged with the name of the exception class.
\<close>

datatype py_error =
    ValueError string
  | NotImplementedError string
  | IndexError string
  | AttributeError string
  | ExternalError string

text \<open>\<open>s.endswith(suf)\<close>, \<open>needle in s\<close> and \<open>s.split(sep)[-1]\<close> on \<open>str\<close>.\<close>

definition endswith :: "string \<Rightarrow> string \<Rightarrow> bool" where
  "endswith s suf = suffix suf s"

definition str_in :: "string \<Rightarrow> string \<Rightarrow> bool" where
  "str_in needle s = sublist needle s"

fun split :: "string \<Rightarrow> char \<Rightarrow> string list" where
  "split [] sep = [[]]"
| "split (c # cs) sep =
     (if c = sep then [] # split cs sep
      else (c # hd (split cs sep)) # tl (split cs sep))"

text \<open>\<open>sep.join(parts)\<close>.\<close>

fun join :: "string \<Rightarrow> string list \<Rightarrow> string" where
  "join sep [] = []"
| "join sep [p] = p"
| "join sep (p # q # ps) = p @ sep @ join sep (q # ps)"

section \<open>speedread: text extraction and the reader object\<close>

subsection \<open>External calls and their trace\<close>

text \<open>
  The script calls into pypdf, pdf2image, pytesseract, the file system, the logger and the
  anthropic client. Each such call is an event; a computation returns the events it
  performed, in order, together with its result or the exception that ended it.
\<close>

datatype io_event =
    LogInfo string
  | PdfReader string
  | ExtractText nat
  | ConvertFromPath string
  | ImageToString nat
  | OpenRead string
  | NewAnthropic "string option"

type_synonym 'a io = "io_event list \<times> (py_error + 'a)"

definition io_return :: "'a \<Rightarrow> 'a io" where
  "io_return x = ([], Inr x)"

definition io_raise :: "py_error \<Rightarrow> 'a io" where
  "io_raise e = ([], Inl e)"

definition io_call :: "io_event \<Rightarrow> py_error + 'a \<Rightarrow> 'a io" where
  "io_call ev outcome = ([ev], outcome)"

definition io_bind :: "'a io \<Rightarrow> ('a \<Rightarrow> 'b io) \<Rightarrow> 'b io" where
  "io_bind m f =
     (case m of
        (t, Inl e) \<Rightarrow> (t, Inl e)
      | (t, Inr x) \<Rightarrow> (case f x of (t', r) \<Rightarrow> (t @ t', r)))"

text \<open>
  The file argument is annotated \<open>str | Path | None\<close>. A \<open>pathlib.Path\<close> is always
  truthy and has no \<open>endswith\<close> method; \<open>None\<close> and the empty \<open>str\<close> are falsy.
\<close>

datatype file_arg = PyNone | PyStr string | PyPath string

fun truthy_file :: "file_arg \<Rightarrow> bool" where
  "truthy_file PyNone = False"
| "truthy_file (PyStr s) = (s \<noteq> [])"
| "truthy_file (PyPath p) = True"

fun truthy_str :: "string option \<Rightarrow> bool" where
  "truthy_str None = False"
| "truthy_str (Some s) = (s \<noteq> [])"

text \<open>
  The client object built by \<open>anthropic.Anthropic(api_key=...)\<close>, identified by the key
  it was built with.
\<close>

datatype AiClient = AiClient "string option"

text \<open>
  What lies outside the script. A PDF opened by \<open>PdfReader\<close> is the list of its pages, and
  a page is the outcome of \<open>extract_text()\<close> on it; \<open>convert_from_path\<close> gives the list
  of rendered page images, and an image is the outcome of \<open>image_to_string\<close> on it.
  \<open>ANTHROPIC_API_KEY\<close> is the constant of the \<open>config\<close> module.
\<close>

record world =
  pdf_pages :: "string \<Rightarrow> py_error + (py_error + string) list"
  convert_from_path :: "string \<Rightarrow> py_error + (py_error + string) list"
  open_read :: "string \<Rightarrow> py_error + string"
  ANTHROPIC_API_KEY :: "string option"
  Anthropic :: "string option \<Rightarrow> py_error + AiClient"

subsection \<open>read_file and text_from_images\<close>

text \<open>
  The list comprehension \<open>[page.extract_text() for page in reader.pages]\<close>: pages are
  visited in order (the counter is the page number recorded in the trace), and the first
  exception ends the comprehension.
\<close>

fun extract_pages :: "nat \<Rightarrow> (py_error + string) list \<Rightarrow> string list io" where
  "extract_pages i [] = io_return []"
| "extract_pages i (page # pages) =
     io_bind (io_call (ExtractText i) page) (\<lambda>t.
     io_bind (extract_pages (Suc i) pages) (\<lambda>ts.
     io_return (t # ts)))"

text \<open>The loop \<open>for image in images: text += pytesseract.image_to_string(image)\<close>.\<close>

fun ocr_images :: "nat \<Rightarrow> (py_error + string) list \<Rightarrow> string \<Rightarrow> string io" where
  "ocr_images i [] text = io_return text"
| "ocr_images i (img # images) text =
     io_bind (io_call (ImageToString i) img) (\<lambda>s.
     ocr_images (Suc i) images (text @ s))"

definition text_from_images :: "world \<Rightarrow> string \<Rightarrow> string io" where
  "text_from_images w file =
     io_bind (io_call (ConvertFromPath file) (convert_from_path w file)) (\<lambda>images.
     ocr_images 0 images [])"

definition read_file :: "world \<Rightarrow> file_arg \<Rightarrow> string io" where
  "read_file w file =
     (if \<not> truthy_file file then io_raise (ValueError ''No file path provided'')
      else case file of
        PyStr f \<Rightarrow>
          if endswith f ''.pdf'' then
            io_bind (io_call (LogInfo ''Reading pdf file...'') (Inr ())) (\<lambda>_.
            io_bind (io_call (PdfReader f) (pdf_pages w f)) (\<lambda>pages.
            io_bind (extract_pages 0 pages) (\<lambda>texts.
            let text = concat texts in
            if text = [] then
              io_bind (io_call
                (LogInfo ''No text found in pdf, attempting to extract from images...'')
                (Inr ())) (\<lambda>_.
              text_from_images w f)
            else io_return text)))
          else if endswith f ''.txt'' then
            io_bind (io_call (LogInfo ''Reading txt file...'') (Inr ())) (\<lambda>_.
            io_call (OpenRead f) (open_read w f))
          else
            io_raise (NotImplementedError
              (''File type '' @ last (split f CHR ''.'') @ '' not supported''))
      | _ \<Rightarrow> io_raise (AttributeError
          (CHR 0x27 # ''PosixPath' object has no attribute 'endswith'' @ [CHR 0x27])))"

subsection \<open>AiReader\<close>

text \<open>
  The attrs class. \<open>client\<close> is declared \<open>init=False\<close> and is set only by
  \<open>__attrs_post_init__\<close>, so a constructed reader always has one.
\<close>

record AiReader =
  "file" :: file_arg
  model :: string
  "text" :: "string option"
  client :: AiClient
  api_key :: "string option"

text \<open>
  Construction: the generated \<open>__init__\<close> stores the arguments and runs
  \<open>__attrs_post_init__\<close>. The defaults are \<open>file=None\<close>,
  \<open>model="claude-3-opus-20240229"\<close>, \<open>text=None\<close>, \<open>api_key=None\<close>.
\<close>

definition AiReader_init ::
  "world \<Rightarrow> file_arg \<Rightarrow> string \<Rightarrow> string option \<Rightarrow> string option \<Rightarrow> AiReader io" where
  "AiReader_init w file0 model0 text0 api_key0 =
     io_bind
       (if truthy_file file0 \<and> \<not> truthy_str text0
        then io_bind (read_file w file0) (\<lambda>t. io_return (Some t))
        else io_return text0) (\<lambda>text1.
     if str_in ''claude'' model0 then
       let api_key1 = (if truthy_str api_key0 then api_key0 else ANTHROPIC_API_KEY w) in
       io_bind (io_call (NewAnthropic api_key1) (Anthropic w api_key1)) (\<lambda>c.
       io_return \<lparr>file = file0, model = model0, text = text1, client = c,
                  api_key = api_key1\<rparr>)
     else io_raise (NotImplementedError (''Model '' @ model0 @ '' not supported'')))"

section \<open>vancouver_heritage: locations, scraping and exports\<close>

subsection \<open>Location and geocoding\<close>

text \<open>
  A \<open>geopy.location.Location\<close>: an address and a point of three floats. The type \<open>'f\<close>
  stands for Python's \<open>float\<close>; the script only stores and prints such values. A geopy
  location has length two, so it is always truthy, and its coordinates are never \<open>None\<close>.
\<close>

record 'f GeopyLocation =
  geopy_address :: string
  geopy_latitude :: 'f
  geopy_longitude :: 'f
  geopy_altitude :: 'f

text \<open>
  The geocoding service. \<open>Nominatim(user_agent=...)\<close> either raises or gives a geocoder,
  whose \<open>geocode(query)\<close> either raises, finds nothing (\<open>None\<close>) or gives a location.
\<close>

type_synonym 'f geocoder = "string \<Rightarrow> py_error + 'f GeopyLocation option"

type_synonym 'f nominatim = "string \<Rightarrow> py_error + 'f geocoder"

text \<open>The attrs class \<open>Location\<close>; \<open>geopy_location\<close> is \<open>init=False\<close>, \<open>name\<close> defaults to \<open>None\<close>.\<close>

record 'f Location =
  address :: string
  city :: string
  geopy_location :: "'f GeopyLocation option"
  name :: "string option"

text \<open>
  The default of \<open>geopy_location\<close>: both calls are inside \<open>try\<close>, and the bare \<open>except\<close>
  turns every exception into \<open>None\<close>.
\<close>

definition geolocate :: "'f nominatim \<Rightarrow> string \<Rightarrow> string \<Rightarrow> 'f GeopyLocation option" where
  "geolocate Nominatim address0 city0 =
     (case Nominatim ''joltex'' of
        Inl e \<Rightarrow> None
      | Inr geolocator \<Rightarrow>
          (case geolocator (address0 @ '', '' @ city0) of
             Inl e \<Rightarrow> None
           | Inr found \<Rightarrow> found))"

text \<open>\<open>Location(address=..., city=..., name=...)\<close>: the generated \<open>__init__\<close>.\<close>

definition Location_init ::
  "'f nominatim \<Rightarrow> string \<Rightarrow> string \<Rightarrow> string option \<Rightarrow> 'f Location" where
  "Location_init Nominatim address0 city0 name0 =
     \<lparr>address = address0, city = city0,
      geopy_location = geolocate Nominatim address0 city0, name = name0\<rparr>"

definition latitude :: "'f Location \<Rightarrow> 'f option" where
  "latitude self =
     (case geopy_location self of
        Some g \<Rightarrow> Some (geopy_latitude g)
      | None \<Rightarrow> None)"

definition longitude :: "'f Location \<Rightarrow> 'f option" where
  "longitude self =
     (case geopy_location self of
        Some g \<Rightarrow> Some (geopy_longitude g)
      | None \<Rightarrow> None)"

subsection \<open>get_locations_without_photos\<close>







subsection \<open>Exporters\<close>

text \<open>\<open>xs[i]\<close> for a non-negative index.\<close>

definition getitem :: "'a list \<Rightarrow> nat \<Rightarrow> py_error + 'a" where
  "getitem xs i =
     (if i < length xs then Inr (xs ! i) else Inl (IndexError ''list index out of range''))"

text \<open>
  How values print: \<open>str\<close> of a float, \<open>repr\<close> of a \<open>str\<close>, and \<open>repr\<close> of a geopy
  location, all three defined outside the script.
\<close>

record 'f py_format =
  str_float :: "'f \<Rightarrow> string"
  repr_str :: "string \<Rightarrow> string"
  repr_geopy :: "'f GeopyLocation \<Rightarrow> string"

text \<open>\<open>f"{x}"\<close> for an optional float.\<close>

definition format_coord :: "'f py_format \<Rightarrow> 'f option \<Rightarrow> string" where
  "format_coord fmt x = (case x of None \<Rightarrow> ''None'' | Some v \<Rightarrow> str_float fmt v)"

text \<open>
  \<open>f"{loc}"\<close> for a \<open>Location\<close>: the class defines neither \<open>__format__\<close> nor \<open>__str__\<close>,
  so this is the \<open>__repr__\<close> that attrs generates, listing every field in order.
\<close>

definition Location_repr :: "'f py_format \<Rightarrow> 'f Location \<Rightarrow> string" where
  "Location_repr fmt self =
     ''Location(address='' @ repr_str fmt (address self) @
     '', city='' @ repr_str fmt (city self) @
     '', geopy_location='' @
       (case geopy_location self of None \<Rightarrow> ''None'' | Some g \<Rightarrow> repr_geopy fmt g) @
     '', name='' @ (case name self of None \<Rightarrow> ''None'' | Some n \<Rightarrow> repr_str fmt n) @
     '')''"

text \<open>
  An attrs object defines neither \<open>__bool__\<close> nor \<open>__len__\<close>, so
  \<open>start_location if start_location else locations[0]\<close> takes the argument unless it is
  \<open>None\<close>. \<open>start_str\<close> is computed and not used: the URL interpolates \<open>start_location\<close>.
\<close>

definition generate_google_maps_url_for_ios ::
  "'f py_format \<Rightarrow> 'f Location list \<Rightarrow> 'f Location option \<Rightarrow> py_error + string" where
  "generate_google_maps_url_for_ios fmt locations start_location0 =
     (case (case start_location0 of Some s \<Rightarrow> Inr s | None \<Rightarrow> getitem locations 0) of
        Inl e \<Rightarrow> Inl e
      | Inr start_location \<Rightarrow>
          let start_str = format_coord fmt (latitude start_location) @ '','' @
                          format_coord fmt (longitude start_location);
              destination_locations = join ''+to:''
                (map (\<lambda>loc. format_coord fmt (latitude loc) @ '','' @
                            format_coord fmt (longitude loc)) locations);
              url = ''comgooglemaps://?saddr='' @ Location_repr fmt start_location @
                    ''&daddr='' @ destination_locations
          in Inr url)"

text \<open>
  gmplot lies outside the script. \<open>GoogleMapPlotter(lat, lng, zoom)\<close> raises or gives a
  map (of type \<open>'m\<close>), \<open>gmap.marker(lat, lng, title=...)\<close> raises or updates the map, and
  \<open>gmap.draw(path)\<close> raises or writes the file. Each of them may reject a coordinate
  that is \<open>None\<close>.
\<close>

record ('f, 'm) gmplot =
  GoogleMapPlotter :: "'f option \<Rightarrow> 'f option \<Rightarrow> nat \<Rightarrow> py_error + 'm"
  marker :: "'m \<Rightarrow> 'f option \<Rightarrow> 'f option \<Rightarrow> string \<Rightarrow> py_error + 'm"
  draw :: "'m \<Rightarrow> string \<Rightarrow> py_error option"

text \<open>The loop \<open>for location in locations: gmap.marker(...)\<close>.\<close>

fun add_markers ::
  "('f, 'm) gmplot \<Rightarrow> 'm \<Rightarrow> 'f Location list \<Rightarrow> py_error + 'm" where
  "add_markers lib gmap [] = Inr gmap"
| "add_markers lib gmap (location # locations) =
     (case marker lib gmap (latitude location) (longitude location) (address location) of
        Inl e \<Rightarrow> Inl e
      | Inr gmap' \<Rightarrow> add_markers lib gmap' locations)"

text \<open>The result, when nothing raises, is the map that was drawn and the path it went to.\<close>

definition plot_locations_on_map ::
  "('f, 'm) gmplot \<Rightarrow> 'f Location list \<Rightarrow> 'f Location option \<Rightarrow> string \<Rightarrow>
   py_error + (string \<times> 'm)" where
  "plot_locations_on_map lib locations centre_location0 output_path =
     (case (case centre_location0 of Some c \<Rightarrow> Inr c | None \<Rightarrow> getitem locations 0) of
        Inl e \<Rightarrow> Inl e
      | Inr centre_location \<Rightarrow>
          (case GoogleMapPlotter lib (latitude centre_location)
                  (longitude centre_location) 13 of
             Inl e \<Rightarrow> Inl e
           | Inr gmap \<Rightarrow>
               (case add_markers lib gmap locations of
                  Inl e \<Rightarrow> Inl e
                | Inr gmap' \<Rightarrow>
                    (case draw lib gmap' output_path of
                       Some e \<Rightarrow> Inl e
                     | None \<Rightarrow> Inr (output_path, gmap')))))"

text \<open>
  The cattrs converter with the hook that omits \<open>geopy_location\<close>: a dict of the other
  fields in declaration order.
\<close>

definition unstructure :: "'f Location \<Rightarrow> (string \<times> string option) list" where
  "unstructure location =
     [(''address'', Some (address location)), (''city'', Some (city location)),
      (''name'', name location)]"

text \<open>
  \<open>csv.DictWriter\<close>: a row dict with a key outside \<open>fieldnames\<close> is refused, a missing key
  or a \<open>None\<close> value is written as the empty string. A written file is its list of rows,
  each a list of cells.
\<close>

definition dict_to_list ::
  "string list \<Rightarrow> (string \<times> string option) list \<Rightarrow> py_error + string list" where
  "dict_to_list fieldnames rowdict =
     (if set (map fst rowdict) \<subseteq> set fieldnames
      then Inr (map (\<lambda>k. case map_of rowdict k of Some (Some v) \<Rightarrow> v | _ \<Rightarrow> []) fieldnames)
      else Inl (ValueError ''dict contains fields not in fieldnames''))"

fun writerows ::
  "string list \<Rightarrow> (string \<times> string option) list list \<Rightarrow> string list list \<Rightarrow>
   string list list \<times> (py_error + unit)" where
  "writerows fieldnames [] written = (written, Inr ())"
| "writerows fieldnames (rowdict # rowdicts) written =
     (case dict_to_list fieldnames rowdict of
        Inl e \<Rightarrow> (written, Inl e)
      | Inr row \<Rightarrow> writerows fieldnames rowdicts (written @ [row]))"

text \<open>
  \<open>to_csv\<close> on a file system (path to written rows). \<open>open_w\<close> is the outcome of
  \<open>open(output_path, "w", ...)\<close>: an exception, or success, which leaves the file empty.
\<close>

definition to_csv ::
  "(string \<Rightarrow> py_error option) \<Rightarrow> 'f Location list \<Rightarrow> string \<Rightarrow>
   (string \<rightharpoonup> string list list) \<Rightarrow> (string \<rightharpoonup> string list list) \<times> (py_error + unit)" where
  "to_csv open_w locations output_path fs =
     (let csv_data = map unstructure locations in
      case open_w output_path of
        Some e \<Rightarrow> (fs, Inl e)
      | None \<Rightarrow>
          (case getitem csv_data 0 of
             Inl e \<Rightarrow> (fs(output_path \<mapsto> []), Inl e)
           | Inr first \<Rightarrow>
               let fieldnames = map fst first in
               case writerows fieldnames csv_data [fieldnames] of
                 (rows, r) \<Rightarrow> (fs(output_path \<mapsto> rows), r)))"

section \<open>Sample environments\<close>

text \<open>
  A small world used to run the definitions: one PDF with embedded text, one scanned PDF
  (no embedded text, two recognisable page images), one text file; every other path is
  missing.
\<close>

definition demo_world :: world where
  "demo_world =
     \<lparr>pdf_pages = (\<lambda>f.
        if f = ''paper.pdf'' then Inr [Inr ''Hello '', Inr ''world'']
        else if f = ''scan.pdf'' then Inr [Inr [], Inr []]
        else Inl (ExternalError ''FileNotFoundError'')),
      convert_from_path = (\<lambda>f.
        if f = ''scan.pdf'' then Inr [Inr ''page one '', Inr ''page two'']
        else Inl (ExternalError ''PDFPageCountError'')),
      open_read = (\<lambda>f.
        if f = ''notes.txt'' then Inr ''some notes''
        else Inl (ExternalError ''FileNotFoundError'')),
      ANTHROPIC_API_KEY = Some ''sk-test'',
      Anthropic = (\<lambda>k. Inr (AiClient k))\<rparr>"

text \<open>
  For the heritage script: a geocoder that resolves one address, times out on another and
  finds nothing otherwise (floats are written by their printed form); a page with one
  table, and a page whose table has a row of a single empty cell; a file system where
  every file can be opened for writing.
\<close>

definition demo_geopy :: "string GeopyLocation" where
  "demo_geopy =
     \<lparr>geopy_address = ''Harbour Centre, Vancouver'', geopy_latitude = ''49.2844'',
      geopy_longitude = ''-123.1116'', geopy_altitude = ''0.0''\<rparr>"

definition demo_nominatim :: "string nominatim" where
  "demo_nominatim user_agent =
     Inr (\<lambda>query.
       if query = ''515 W Hastings St, Vancouver'' then Inr (Some demo_geopy)
       else if query = ''1 Offline Rd, Vancouver'' then Inl (ExternalError ''GeocoderTimedOut'')
       else Inr None)"

definition demo_format :: "string py_format" where
  "demo_format =
     \<lparr>str_float = (\<lambda>x. x),
      repr_str = (\<lambda>s. [CHR 0x27] @ s @ [CHR 0x27]),
      repr_geopy = (\<lambda>g. ''Location('' @ geopy_address g @ '', ('' @ geopy_latitude g @
        '', '' @ geopy_longitude g @ '', '' @ geopy_altitude g @ ''))'')\<rparr>"




definition open_ok :: "string \<Rightarrow> py_error option" where
  "open_ok path = None"

definition no_files :: "string \<rightharpoonup> string list list" where
  "no_files = Map.empty"

section \<open>Properties of speedread\<close>

subsection \<open>Strings\<close>

lemma split_nonempty: "split s sep \<noteq> []"
  by (induction s) auto

lemma split_no_sep: "sep \<notin> set s \<Longrightarrow> split s sep = [s]"
  by (induction s) auto

lemma split_tl_nonempty: "tl (split (base @ sep # ext) sep) \<noteq> []"
  by (induction base) (auto simp: split_nonempty)

lemma last_split_append:
  "sep \<notin> set ext \<Longrightarrow> last (split (base @ sep # ext) sep) = ext"
proof (induction base)
  case Nil
  then show ?case by (simp add: split_no_sep)
next
  case (Cons c base)
  let ?r = "split (base @ sep # ext) sep"
  have ne: "?r \<noteq> []" by (rule split_nonempty)
  have tne: "tl ?r \<noteq> []" by (rule split_tl_nonempty)
  from ne tne have l: "last (tl ?r) = last ?r" by (cases ?r) auto
  show ?case
  proof (cases "c = sep")
    case True
    with Cons ne show ?thesis by simp
  next
    case False
    with Cons tne l show ?thesis by simp
  qed
qed

lemma takeWhile_rev_tail:
  assumes "c \<notin> set ys"
  shows "takeWhile (\<lambda>x. x \<noteq> c) (rev (xs @ c # ys)) = rev ys"
proof -
  have "\<And>x. x \<in> set (rev ys) \<Longrightarrow> x \<noteq> c"
    using assms by auto
  then have "takeWhile (\<lambda>x. x \<noteq> c) (rev ys @ c # rev xs) =
      rev ys @ takeWhile (\<lambda>x. x \<noteq> c) (c # rev xs)"
    by (rule takeWhile_append2)
  then show ?thesis by simp
qed

lemma tail_after_last_sep:
  assumes "c \<notin> set ys" "c \<notin> set ws" "xs @ c # ys = zs @ c # ws"
  shows "ys = ws"
proof -
  have "rev ys = takeWhile (\<lambda>x. x \<noteq> c) (rev (xs @ c # ys))"
    using takeWhile_rev_tail [OF assms(1)] by simp
  also have "\<dots> = takeWhile (\<lambda>x. x \<noteq> c) (rev (zs @ c # ws))"
    by (simp only: assms(3))
  also have "\<dots> = rev ws"
    by (rule takeWhile_rev_tail [OF assms(2)])
  finally show ?thesis by simp
qed

lemma endswith_dot_ext:
  assumes "CHR ''.'' \<notin> set ext" "CHR ''.'' \<notin> set e"
    and "endswith (base @ ''.'' @ ext) (''.'' @ e)"
  shows "ext = e"
proof -
  from assms(3) obtain zs where "base @ CHR ''.'' # ext = zs @ CHR ''.'' # e"
    by (auto simp: endswith_def suffix_def)
  with assms(1,2) show ?thesis by (rule tail_after_last_sep)
qed

lemma not_endswith_pdf:
  "CHR ''.'' \<notin> set ext \<Longrightarrow> ext \<noteq> ''pdf'' \<Longrightarrow> \<not> endswith (base @ ''.'' @ ext) ''.pdf''"
  using endswith_dot_ext [of ext "''pdf''" base] by auto

lemma not_endswith_txt:
  "CHR ''.'' \<notin> set ext \<Longrightarrow> ext \<noteq> ''txt'' \<Longrightarrow> \<not> endswith (base @ ''.'' @ ext) ''.txt''"
  using endswith_dot_ext [of ext "''txt''" base] by auto

subsection \<open>Traces\<close>

lemma io_bind_call_Inr [simp]:
  "io_bind (io_call ev (Inr x)) f = (ev # fst (f x), snd (f x))"
  by (simp add: io_bind_def io_call_def split: prod.splits)

lemma io_bind_call_Inl [simp]:
  "io_bind (io_call ev (Inl e)) f = ([ev], Inl e)"
  by (simp add: io_bind_def io_call_def)

lemma io_bind_return [simp]: "io_bind (io_return x) f = f x"
  by (simp add: io_bind_def io_return_def split: prod.splits)

lemma io_bind_raise [simp]: "io_bind (io_raise e) f = ([], Inl e)"
  by (simp add: io_bind_def io_raise_def)

lemma io_bind_pair_Inr [simp]:
  "io_bind (t, Inr x) f = (t @ fst (f x), snd (f x))"
  by (simp add: io_bind_def split: prod.splits)

lemma io_bind_pair_Inl [simp]:
  "io_bind (t, Inl e) f = (t, Inl e)"
  by (simp add: io_bind_def)

subsection \<open>read_file\<close>

text \<open>
  A \<open>pathlib.Path\<close> argument, which the signature admits, never reaches the dispatch on
  the extension: it is truthy, and \<open>file.endswith\<close> raises \<open>AttributeError\<close>.
\<close>

lemma read_file_Path:
  "read_file w (PyPath p) =
     ([], Inl (AttributeError
        (CHR 0x27 # ''PosixPath' object has no attribute 'endswith'' @ [CHR 0x27])))"
  by (simp add: read_file_def io_raise_def)

text \<open>
  C8. For a path given as a \<open>pathlib.Path\<close> with an extension other than \<open>.pdf\<close> or
  \<open>.txt\<close>, here \<open>Path("notes.docx")\<close>, \<open>read_file\<close> raises \<open>AttributeError\<close> and not the
  \<open>NotImplementedError\<close> naming the extension. Nothing is read from the file.
\<close>

theorem read_file_Path_unsupported_extension:
  "read_file w (PyPath ''notes.docx'') =
     ([], Inl (AttributeError
        (CHR 0x27 # ''PosixPath' object has no attribute 'endswith'' @ [CHR 0x27])))"
  by (rule read_file_Path)

text \<open>
  For a \<open>str\<close> path \<open>base.ext\<close> whose extension \<open>ext\<close> (the part after the last dot)
  is neither \<open>pdf\<close> nor \<open>txt\<close>, \<open>read_file\<close> raises
  \<open>NotImplementedError("File type ext not supported")\<close>, and its trace is empty: no
  external call of any kind is made, so nothing is read from the file.
\<close>

lemma read_file_str_unsupported_extension:
  assumes "CHR ''.'' \<notin> set ext" and "ext \<noteq> ''pdf''" and "ext \<noteq> ''txt''"
  shows "read_file w (PyStr (base @ ''.'' @ ext)) =
           ([], Inl (NotImplementedError (''File type '' @ ext @ '' not supported'')))"
proof -
  have "\<not> endswith (base @ ''.'' @ ext) ''.pdf''"
    using assms(1,2) by (rule not_endswith_pdf)
  moreover have "\<not> endswith (base @ ''.'' @ ext) ''.txt''"
    using assms(1,3) by (rule not_endswith_txt)
  moreover have "last (split (base @ ''.'' @ ext) CHR ''.'') = ext"
    using last_split_append [OF assms(1), of base] by simp
  ultimately show ?thesis
    by (simp add: read_file_def io_raise_def)
qed

lemma read_file_str_unsupported_extension_docx:
  "CHR ''.'' \<notin> set ''docx'' \<and> ''docx'' \<noteq> ''pdf'' \<and> ''docx'' \<noteq> ''txt'' \<and>
   read_file demo_world (PyStr ''notes.docx'') =
     ([], Inl (NotImplementedError ''File type docx not supported''))"
  using read_file_str_unsupported_extension [of "''docx''" demo_world "''notes''"] by simp

lemma extract_pages_ok:
  "extract_pages i (map Inr texts) =
     (map ExtractText [i ..< i + length texts], Inr texts)"
proof (induction texts arbitrary: i)
  case Nil
  show ?case by (simp add: io_return_def)
next
  case (Cons t texts)
  have "[i ..< i + length (t # texts)] = i # [Suc i ..< Suc i + length texts]"
    by (simp add: upt_rec)
  with Cons [of "Suc i"] show ?case
    by (simp add: io_return_def)
qed

lemma ocr_images_ok:
  "ocr_images i (map Inr ocr) acc =
     (map ImageToString [i ..< i + length ocr], Inr (acc @ concat ocr))"
proof (induction ocr arbitrary: i acc)
  case Nil
  show ?case by (simp add: io_return_def)
next
  case (Cons s ocr)
  have "[i ..< i + length (s # ocr)] = i # [Suc i ..< Suc i + length ocr]"
    by (simp add: upt_rec)
  with Cons [of "Suc i" "acc @ s"] show ?case
    by simp
qed

lemma endswith_nonempty: "endswith f (c # suf) \<Longrightarrow> f \<noteq> []"
  by (auto simp: endswith_def)

lemma read_file_pdf_text:
  assumes "endswith f ''.pdf''" and "pdf_pages w f = Inr (map Inr texts)"
    and "concat texts \<noteq> []"
  shows "read_file w (PyStr f) =
           (LogInfo ''Reading pdf file...'' # PdfReader f #
              map ExtractText [0 ..< length texts],
            Inr (concat texts))"
proof -
  have "f \<noteq> []" using assms(1) by (rule endswith_nonempty)
  with assms show ?thesis
    by (simp add: read_file_def extract_pages_ok Let_def io_return_def
          del: concat_eq_Nil_conv)
qed

lemma read_file_pdf_ocr:
  assumes "endswith f ''.pdf''" and "pdf_pages w f = Inr (map Inr texts)"
    and "concat texts = []" and "convert_from_path w f = Inr (map Inr ocr)"
  shows "read_file w (PyStr f) =
           (LogInfo ''Reading pdf file...'' # PdfReader f #
              map ExtractText [0 ..< length texts] @
              LogInfo ''No text found in pdf, attempting to extract from images...'' #
              ConvertFromPath f # map ImageToString [0 ..< length ocr],
            Inr (concat ocr))"
proof -
  have "f \<noteq> []" using assms(1) by (rule endswith_nonempty)
  with assms show ?thesis
    by (simp add: read_file_def text_from_images_def extract_pages_ok ocr_images_ok
          Let_def del: concat_eq_Nil_conv)
qed

text \<open>
  C4. For a PDF whose path is given as a \<open>pathlib.Path\<close>, here \<open>Path("paper.pdf")\<close> with
  two pages of embedded text, \<open>read_file\<close> raises \<open>AttributeError\<close> where the page texts
  concatenated, \<open>Hello world\<close>, are due. The PDF is not opened.
\<close>

theorem read_file_Path_pdf:
  "pdf_pages demo_world ''paper.pdf'' = Inr [Inr ''Hello '', Inr ''world''] \<and>
   read_file demo_world (PyPath ''paper.pdf'') =
     ([], Inl (AttributeError
        (CHR 0x27 # ''PosixPath' object has no attribute 'endswith'' @ [CHR 0x27])))"
  by (simp add: read_file_Path) (simp add: demo_world_def)

text \<open>
  For a \<open>str\<close> path ending in \<open>.pdf\<close> that pypdf opens and whose pages all extract
  (to \<open>texts\<close>, in page order), \<open>read_file\<close> returns their concatenation when it is not
  empty. When it is empty, and pdf2image renders the pages to images that pytesseract
  recognises as \<open>ocr\<close> (in page order), it returns the concatenation of \<open>ocr\<close> instead.
  The pages are rendered to images exactly when the concatenated text is empty.
\<close>

lemma read_file_str_pdf:
  assumes pdf: "endswith f ''.pdf''"
    and pages: "pdf_pages w f = Inr (map Inr texts)"
    and images: "concat texts = [] \<longrightarrow> convert_from_path w f = Inr (map Inr ocr)"
  shows "snd (read_file w (PyStr f)) =
           Inr (if concat texts = [] then concat ocr else concat texts) \<and>
         (ConvertFromPath f \<in> set (fst (read_file w (PyStr f)))) = (concat texts = [])"
proof (cases "concat texts = []")
  case True
  with images have "convert_from_path w f = Inr (map Inr ocr)" by simp
  from read_file_pdf_ocr [OF pdf pages True this] True show ?thesis
    by (simp del: concat_eq_Nil_conv)
next
  case False
  from read_file_pdf_text [OF pdf pages False] False show ?thesis
    by (auto simp del: concat_eq_Nil_conv)
qed

lemma read_file_str_pdf_demo:
  "endswith ''scan.pdf'' ''.pdf'' \<and>
   pdf_pages demo_world ''scan.pdf'' = Inr (map Inr [[], []]) \<and>
   concat [[], []] = ([] :: string) \<and>
   convert_from_path demo_world ''scan.pdf'' = Inr (map Inr [''page one '', ''page two'']) \<and>
   snd (read_file demo_world (PyStr ''scan.pdf'')) = Inr ''page one page two'' \<and>
   ConvertFromPath ''scan.pdf'' \<in> set (fst (read_file demo_world (PyStr ''scan.pdf''))) \<and>
   endswith ''paper.pdf'' ''.pdf'' \<and>
   pdf_pages demo_world ''paper.pdf'' = Inr (map Inr [''Hello '', ''world'']) \<and>
   snd (read_file demo_world (PyStr ''paper.pdf'')) = Inr ''Hello world'' \<and>
   ConvertFromPath ''paper.pdf'' \<notin> set (fst (read_file demo_world (PyStr ''paper.pdf'')))"
proof -
  have e1: "endswith ''scan.pdf'' ''.pdf''" by (simp add: endswith_def suffix_def)
  have p1: "pdf_pages demo_world ''scan.pdf'' = Inr (map Inr [[], []])"
    by (simp add: demo_world_def)
  have c1: "concat [[], []] = ([] :: string) \<longrightarrow>
      convert_from_path demo_world ''scan.pdf'' = Inr (map Inr [''page one '', ''page two''])"
    by (simp add: demo_world_def)
  have e2: "endswith ''paper.pdf'' ''.pdf''" by (simp add: endswith_def suffix_def)
  have p2: "pdf_pages demo_world ''paper.pdf'' = Inr (map Inr [''Hello '', ''world''])"
    by (simp add: demo_world_def)
  have c2: "concat [''Hello '', ''world''] = [] \<longrightarrow>
      convert_from_path demo_world ''paper.pdf'' = Inr (map Inr [])"
    by simp
  from read_file_str_pdf [OF e1 p1 c1] read_file_str_pdf [OF e2 p2 c2] e1 p1 c1 e2 p2
  show ?thesis by simp
qed

subsection \<open>AiReader construction\<close>

lemma io_bind_trace:
  assumes "ev \<in> set (fst (io_bind m f))"
  shows "ev \<in> set (fst m) \<or> (\<exists>x. snd m = Inr x \<and> ev \<in> set (fst (f x)))"
  using assms by (cases m; cases "snd m") (auto simp: io_bind_def split: prod.splits)

lemma extract_pages_no_client:
  "NewAnthropic key \<notin> set (fst (extract_pages i ps))"
proof (induction ps arbitrary: i)
  case Nil
  show ?case by (simp add: io_return_def)
next
  case (Cons p ps)
  show ?case
  proof (cases p)
    case (Inl e)
    then show ?thesis by simp
  next
    case (Inr t)
    with Cons [of "Suc i"] show ?thesis
      by (auto simp: io_return_def dest!: io_bind_trace)
  qed
qed

lemma ocr_images_no_client:
  "NewAnthropic key \<notin> set (fst (ocr_images i imgs acc))"
proof (induction imgs arbitrary: i acc)
  case Nil
  show ?case by (simp add: io_return_def)
next
  case (Cons p imgs)
  show ?case
  proof (cases p)
    case (Inl e)
    then show ?thesis by simp
  next
    case (Inr t)
    with Cons [of "Suc i" "acc @ t"] show ?thesis by simp
  qed
qed

lemma text_from_images_no_client:
  "NewAnthropic key \<notin> set (fst (text_from_images w f))"
  by (cases "convert_from_path w f") (simp_all add: text_from_images_def ocr_images_no_client)

lemma read_file_no_client:
  "NewAnthropic key \<notin> set (fst (read_file w f))"
proof (cases f)
  case PyNone
  then show ?thesis by (simp add: read_file_def io_raise_def)
next
  case (PyPath p)
  then show ?thesis by (simp add: read_file_def io_raise_def)
next
  case (PyStr p)
  show ?thesis
  proof (cases "pdf_pages w p")
    case (Inl e)
    with PyStr show ?thesis
      by (cases "open_read w p") (simp_all add: read_file_def io_raise_def io_call_def)
  next
    case (Inr pages)
    have "NewAnthropic key \<notin> set (fst (io_bind (extract_pages 0 pages) (\<lambda>texts.
            let text = concat texts in
            if text = [] then
              io_bind (io_call
                (LogInfo ''No text found in pdf, attempting to extract from images...'')
                (Inr ())) (\<lambda>_.
              text_from_images w p)
            else io_return text)))"
      by (auto simp: Let_def io_return_def extract_pages_no_client
            text_from_images_no_client dest!: io_bind_trace split: if_splits
            simp del: concat_eq_Nil_conv)
    with PyStr Inr show ?thesis
      by (cases "open_read w p") (simp_all add: read_file_def io_raise_def io_call_def)
  qed
qed


lemma claude_in_default_model: "str_in ''claude'' ''claude-3-opus-20240229''"
  by code_simp

lemma claude_not_in_gpt: "\<not> str_in ''claude'' ''gpt-4''"
  by code_simp

lemma AiReader_init_skip_read:
  assumes "\<not> (truthy_file f \<and> \<not> truthy_str t)"
  shows "AiReader_init w f m t k =
     (if str_in ''claude'' m then
        (case Anthropic w (if truthy_str k then k else ANTHROPIC_API_KEY w) of
           Inl e \<Rightarrow> ([NewAnthropic (if truthy_str k then k else ANTHROPIC_API_KEY w)], Inl e)
         | Inr c \<Rightarrow> ([NewAnthropic (if truthy_str k then k else ANTHROPIC_API_KEY w)],
             Inr \<lparr>file = f, model = m, text = t, client = c,
                  api_key = (if truthy_str k then k else ANTHROPIC_API_KEY w)\<rparr>))
      else ([], Inl (NotImplementedError (''Model '' @ m @ '' not supported''))))"
  using assms
  by (cases "Anthropic w (if truthy_str k then k else ANTHROPIC_API_KEY w)")
     (auto simp: AiReader_init_def Let_def io_return_def io_raise_def)

lemma AiReader_init_read_ok:
  assumes "truthy_file f" "\<not> truthy_str t" "read_file w f = (tr, Inr s)"
  shows "AiReader_init w f m t k =
     (if str_in ''claude'' m then
        (case Anthropic w (if truthy_str k then k else ANTHROPIC_API_KEY w) of
           Inl e \<Rightarrow> (tr @ [NewAnthropic (if truthy_str k then k else ANTHROPIC_API_KEY w)], Inl e)
         | Inr c \<Rightarrow> (tr @ [NewAnthropic (if truthy_str k then k else ANTHROPIC_API_KEY w)],
             Inr \<lparr>file = f, model = m, text = Some s, client = c,
                  api_key = (if truthy_str k then k else ANTHROPIC_API_KEY w)\<rparr>))
      else (tr, Inl (NotImplementedError (''Model '' @ m @ '' not supported''))))"
  using assms
  by (cases "Anthropic w (if truthy_str k then k else ANTHROPIC_API_KEY w)")
     (auto simp: AiReader_init_def Let_def io_return_def io_raise_def)

lemma AiReader_init_read_fails:
  assumes "truthy_file f" "\<not> truthy_str t" "read_file w f = (tr, Inl e)"
  shows "AiReader_init w f m t k = (tr, Inl e)"
  using assms by (simp add: AiReader_init_def)

text \<open>
  C3 (as amended). On a missing (\<open>None\<close>) or empty path \<open>read_file\<close> raises
  \<open>ValueError("No file path provided")\<close> without any external call. Constructing an
  \<open>AiReader\<close> with such a path does not call \<open>read_file\<close> and raises no \<open>ValueError\<close> of
  its own: the guard \<open>if self.file and not self.text\<close> skips the read, the text stays as
  given, and the outcome is that of the model check alone (the unsupported-model error, or
  the creation of the client).
\<close>

theorem AiReader_init_without_file:
  assumes "\<not> truthy_file f"
  shows "read_file w f = ([], Inl (ValueError ''No file path provided'')) \<and>
     AiReader_init w f m t k =
     (if str_in ''claude'' m then
        (case Anthropic w (if truthy_str k then k else ANTHROPIC_API_KEY w) of
           Inl e \<Rightarrow> ([NewAnthropic (if truthy_str k then k else ANTHROPIC_API_KEY w)], Inl e)
         | Inr c \<Rightarrow> ([NewAnthropic (if truthy_str k then k else ANTHROPIC_API_KEY w)],
             Inr \<lparr>file = f, model = m, text = t, client = c,
                  api_key = (if truthy_str k then k else ANTHROPIC_API_KEY w)\<rparr>))
      else ([], Inl (NotImplementedError (''Model '' @ m @ '' not supported''))))"
proof -
  from assms have "read_file w f = ([], Inl (ValueError ''No file path provided''))"
    by (simp add: read_file_def io_raise_def)
  moreover from assms have "\<not> (truthy_file f \<and> \<not> truthy_str t)" by simp
  ultimately show ?thesis
    by (simp only: AiReader_init_skip_read simp_thms)
qed

theorem AiReader_init_without_file_witness:
  "\<not> truthy_file (PyStr []) \<and>
   read_file demo_world (PyStr []) = ([], Inl (ValueError ''No file path provided'')) \<and>
   AiReader_init demo_world (PyStr []) ''claude-3-opus-20240229'' None None =
     ([NewAnthropic (Some ''sk-test'')],
      Inr \<lparr>file = PyStr [], model = ''claude-3-opus-20240229'', text = None,
           client = AiClient (Some ''sk-test''), api_key = Some ''sk-test''\<rparr>)"
  using AiReader_init_without_file
    [of "PyStr []" demo_world "''claude-3-opus-20240229''" None None]
    claude_in_default_model
  by (simp add: demo_world_def)

text \<open>
  C3 as stated fails: with no file, no text and the default model, construction succeeds
  and returns a reader whose text is \<open>None\<close>.
\<close>

theorem AiReader_init_no_file_counterexample:
  "snd (AiReader_init demo_world PyNone ''claude-3-opus-20240229'' None None) =
     Inr \<lparr>file = PyNone, model = ''claude-3-opus-20240229'', text = None,
          client = AiClient (Some ''sk-test''), api_key = Some ''sk-test''\<rparr>"
  using claude_in_default_model
  by (simp add: AiReader_init_def demo_world_def io_return_def Let_def)

text \<open>
  C6 (as amended). The text extraction runs first: when a file is given without text,
  construction begins with the calls of \<open>read_file\<close>, and if \<open>read_file\<close> raises,
  construction raises that same exception, whatever the model name, and does nothing
  more. With a model name that does not contain \<open>claude\<close>, construction always ends in an
  exception and never creates the client (so no API call can follow); when the extraction
  is skipped or succeeds, the exception is \<open>NotImplementedError("Model m not supported")\<close>,
  raised after the extraction's calls. With a model name that contains \<open>claude\<close>, and the
  extraction skipped or successful, the model check passes: the client is created next,
  with the key given or else the configured one, and the outcome is that of creating it.
\<close>

theorem AiReader_init_model_check:
  "(\<not> str_in ''claude'' m \<longrightarrow>
      (\<exists>e. snd (AiReader_init w f m t k) = Inl e) \<and>
      (\<forall>key. NewAnthropic key \<notin> set (fst (AiReader_init w f m t k))) \<and>
      (\<not> (truthy_file f \<and> \<not> truthy_str t) \<longrightarrow>
         AiReader_init w f m t k =
           ([], Inl (NotImplementedError (''Model '' @ m @ '' not supported'')))) \<and>
      (truthy_file f \<and> \<not> truthy_str t \<longrightarrow>
         (\<forall>s. snd (read_file w f) = Inr s \<longrightarrow>
            AiReader_init w f m t k =
              (fst (read_file w f),
               Inl (NotImplementedError (''Model '' @ m @ '' not supported'')))) \<and>
         (\<forall>e. snd (read_file w f) = Inl e \<longrightarrow>
            AiReader_init w f m t k = (fst (read_file w f), Inl e)))) \<and>
   (str_in ''claude'' m \<longrightarrow>
      (\<not> (truthy_file f \<and> \<not> truthy_str t) \<longrightarrow>
         AiReader_init w f m t k =
           ([NewAnthropic (if truthy_str k then k else ANTHROPIC_API_KEY w)],
            case Anthropic w (if truthy_str k then k else ANTHROPIC_API_KEY w) of
              Inl e \<Rightarrow> Inl e
            | Inr c \<Rightarrow>
                Inr \<lparr>file = f, model = m, text = t, client = c,
                     api_key = (if truthy_str k then k else ANTHROPIC_API_KEY w)\<rparr>)) \<and>
      (truthy_file f \<and> \<not> truthy_str t \<longrightarrow>
         (\<forall>s. snd (read_file w f) = Inr s \<longrightarrow>
            AiReader_init w f m t k =
              (fst (read_file w f) @
                 [NewAnthropic (if truthy_str k then k else ANTHROPIC_API_KEY w)],
               case Anthropic w (if truthy_str k then k else ANTHROPIC_API_KEY w) of
                 Inl e \<Rightarrow> Inl e
               | Inr c \<Rightarrow>
                   Inr \<lparr>file = f, model = m, text = Some s, client = c,
                        api_key = (if truthy_str k then k else ANTHROPIC_API_KEY w)\<rparr>)) \<and>
         (\<forall>e. snd (read_file w f) = Inl e \<longrightarrow>
            AiReader_init w f m t k = (fst (read_file w f), Inl e))))"
proof (cases "truthy_file f \<and> \<not> truthy_str t")
  case False
  then show ?thesis
    by (auto simp: AiReader_init_skip_read split: sum.splits)
next
  case True
  then have tf: "truthy_file f" and tt: "\<not> truthy_str t" by simp_all
  obtain tr r where rf: "read_file w f = (tr, r)" by (cases "read_file w f")
  have nc: "\<And>key. NewAnthropic key \<notin> set tr"
    using read_file_no_client [of _ w f] rf by simp
  show ?thesis
  proof (cases r)
    case (Inl e)
    with rf tf tt show ?thesis
      using nc by (simp add: AiReader_init_read_fails)
  next
    case (Inr s)
    with rf tf tt show ?thesis
      using nc by (simp add: AiReader_init_read_ok split: sum.splits)
  qed
qed

lemma read_file_notes_txt:
  "read_file demo_world (PyStr ''notes.txt'') =
     ([LogInfo ''Reading txt file...'', OpenRead ''notes.txt''], Inr ''some notes'')"
proof -
  have "\<not> endswith ''notes.txt'' ''.pdf''" by code_simp
  moreover have "endswith ''notes.txt'' ''.txt''" by code_simp
  ultimately show ?thesis
    by (simp add: read_file_def demo_world_def io_call_def)
qed

lemma read_file_missing_txt:
  "read_file demo_world (PyStr ''missing.txt'') =
     ([LogInfo ''Reading txt file...'', OpenRead ''missing.txt''],
      Inl (ExternalError ''FileNotFoundError''))"
proof -
  have "\<not> endswith ''missing.txt'' ''.pdf''" by code_simp
  moreover have "endswith ''missing.txt'' ''.txt''" by code_simp
  ultimately show ?thesis
    by (simp add: read_file_def demo_world_def io_call_def)
qed

lemma read_file_notes_docx:
  "read_file demo_world (PyStr ''notes.docx'') =
     ([], Inl (NotImplementedError ''File type docx not supported''))"
proof -
  have "\<not> endswith ''notes.docx'' ''.pdf''" by code_simp
  moreover have "\<not> endswith ''notes.docx'' ''.txt''" by code_simp
  ultimately show ?thesis
    by (simp add: read_file_def io_raise_def)
qed

theorem AiReader_init_model_check_witness:
  "\<not> str_in ''claude'' ''gpt-4'' \<and>
   str_in ''claude'' ''claude-3-opus-20240229'' \<and>
   truthy_file (PyStr ''notes.txt'') \<and> \<not> truthy_str None \<and>
   snd (read_file demo_world (PyStr ''notes.txt'')) = Inr ''some notes'' \<and>
   snd (read_file demo_world (PyStr ''missing.txt'')) =
     Inl (ExternalError ''FileNotFoundError'') \<and>
   AiReader_init demo_world (PyStr ''notes.txt'') ''gpt-4'' None None =
     ([LogInfo ''Reading txt file...'', OpenRead ''notes.txt''],
      Inl (NotImplementedError ''Model gpt-4 not supported'')) \<and>
   AiReader_init demo_world (PyStr ''missing.txt'') ''gpt-4'' None None =
     ([LogInfo ''Reading txt file...'', OpenRead ''missing.txt''],
      Inl (ExternalError ''FileNotFoundError'')) \<and>
   AiReader_init demo_world (PyStr ''missing.txt'') ''claude-3-opus-20240229'' None None =
     ([LogInfo ''Reading txt file...'', OpenRead ''missing.txt''],
      Inl (ExternalError ''FileNotFoundError'')) \<and>
   AiReader_init demo_world PyNone ''gpt-4'' None (Some ''sk-own'') =
     ([], Inl (NotImplementedError ''Model gpt-4 not supported'')) \<and>
   AiReader_init demo_world PyNone ''claude-3-opus-20240229'' (Some ''given text'')
       (Some ''sk-own'') =
     ([NewAnthropic (Some ''sk-own'')],
      Inr \<lparr>file = PyNone, model = ''claude-3-opus-20240229'',
           text = Some ''given text'', client = AiClient (Some ''sk-own''),
           api_key = Some ''sk-own''\<rparr>) \<and>
   AiReader_init demo_world (PyStr ''notes.txt'') ''claude-3-opus-20240229'' None None =
     ([LogInfo ''Reading txt file...'', OpenRead ''notes.txt'',
       NewAnthropic (Some ''sk-test'')],
      Inr \<lparr>file = PyStr ''notes.txt'', model = ''claude-3-opus-20240229'',
           text = Some ''some notes'', client = AiClient (Some ''sk-test''),
           api_key = Some ''sk-test''\<rparr>)"
  using AiReader_init_model_check
      [of "''gpt-4''" demo_world "PyStr ''notes.txt''" None None]
    AiReader_init_model_check
      [of "''gpt-4''" demo_world "PyStr ''missing.txt''" None None]
    AiReader_init_model_check
      [of "''claude-3-opus-20240229''" demo_world "PyStr ''missing.txt''" None None]
    AiReader_init_model_check
      [of "''gpt-4''" demo_world PyNone None "Some ''sk-own''"]
    AiReader_init_model_check
      [of "''claude-3-opus-20240229''" demo_world PyNone "Some ''given text''"
          "Some ''sk-own''"]
    AiReader_init_model_check
      [of "''claude-3-opus-20240229''" demo_world "PyStr ''notes.txt''" None None]
    claude_not_in_gpt claude_in_default_model read_file_notes_txt read_file_missing_txt
  by (simp add: demo_world_def)

text \<open>
  C6 as stated fails: the file is read before the model name is checked, so with an
  unsupported model name and a file that cannot be read, construction raises the reading
  error (here a missing file, and an unsupported file type), not the unsupported-model error.
\<close>

theorem AiReader_init_unsupported_model_counterexample:
  "snd (AiReader_init demo_world (PyStr ''missing.txt'') ''gpt-4'' None None) =
     Inl (ExternalError ''FileNotFoundError'') \<and>
   snd (AiReader_init demo_world (PyStr ''notes.docx'') ''gpt-4'' None None) =
     Inl (NotImplementedError ''File type docx not supported'')"
  using read_file_missing_txt read_file_notes_docx
  by (simp add: AiReader_init_def)

section \<open>Properties of vancouver_heritage\<close>










lemma generate_google_maps_url_for_ios_shape:
  "generate_google_maps_url_for_ios fmt (first # others) None =
     Inr (''comgooglemaps://?saddr='' @ Location_repr fmt first @ ''&daddr='' @
          join ''+to:''
            (map (\<lambda>loc. format_coord fmt (latitude loc) @ '','' @
                        format_coord fmt (longitude loc)) (first # others)))"
  by (simp add: generate_google_maps_url_for_ios_def getitem_def Let_def)

text \<open>
  C1. The destination part is as claimed, but the origin is not the coordinate pair: the
  URL interpolates \<open>start_location\<close>, the object, where \<open>start_str\<close> was computed for it.
  For one location resolved to (49.2844, -123.1116) the function returns the URL below,
  whose \<open>saddr\<close> is the \<open>repr\<close> of the \<open>Location\<close> object and not \<open>49.2844,-123.1116\<close>.
\<close>

theorem generate_google_maps_url_for_ios_origin:
  "generate_google_maps_url_for_ios demo_format
     [\<lparr>address = ''515 W Hastings St'', city = ''Vancouver'',
       geopy_location = Some demo_geopy, name = None\<rparr>] None =
     Inr ''comgooglemaps://?saddr=Location(address='515 W Hastings St', city='Vancouver', geopy_location=Location(Harbour Centre, Vancouver, (49.2844, -123.1116, 0.0)), name=None)&daddr=49.2844,-123.1116''"
  by (simp add: generate_google_maps_url_for_ios_shape Location_repr_def format_coord_def
        latitude_def longitude_def demo_format_def demo_geopy_def)

text \<open>
  C7. Whenever the geocoding fails (creating the geocoder raises, or \<open>geocode\<close> raises,
  or it finds nothing), construction still returns a \<open>Location\<close>; its \<open>geopy_location\<close>
  is \<open>None\<close>, and its \<open>latitude\<close> and \<open>longitude\<close> are \<open>None\<close>. \<open>Location_init\<close> is a total
  function of the geocoder's outcome: no outcome of the geocoding call, exceptions
  included, makes construction raise.
\<close>

theorem Location_init_geocoding_failure:
  assumes "(case N ''joltex'' of
              Inl e \<Rightarrow> True
            | Inr geolocator \<Rightarrow>
                (case geolocator (a @ '', '' @ c) of Inl e \<Rightarrow> True | Inr found \<Rightarrow> found = None))"
  shows "Location_init N a c n =
           \<lparr>address = a, city = c, geopy_location = None, name = n\<rparr> \<and>
         latitude (Location_init N a c n) = None \<and>
         longitude (Location_init N a c n) = None"
  using assms
  by (auto simp: Location_init_def geolocate_def latitude_def longitude_def
        split: sum.splits)

theorem Location_init_geocoding_failure_witness:
  "Location_init demo_nominatim ''1 Offline Rd'' ''Vancouver'' None =
     \<lparr>address = ''1 Offline Rd'', city = ''Vancouver'', geopy_location = None,
      name = None\<rparr> \<and>
   latitude (Location_init demo_nominatim ''1 Offline Rd'' ''Vancouver'' None) = None \<and>
   longitude (Location_init demo_nominatim ''1 Offline Rd'' ''Vancouver'' None) = None \<and>
   Location_init demo_nominatim ''355 Burrard St'' ''Vancouver'' None =
     \<lparr>address = ''355 Burrard St'', city = ''Vancouver'', geopy_location = None,
      name = None\<rparr>"
  using Location_init_geocoding_failure
      [where N = demo_nominatim and a = "''1 Offline Rd''" and c = "''Vancouver''"
         and n = None]
    Location_init_geocoding_failure
      [where N = demo_nominatim and a = "''355 Burrard St''" and c = "''Vancouver''"
         and n = None]
  by (simp add: demo_nominatim_def latitude_def longitude_def)

text \<open>
  C10. \<open>latitude\<close> is \<open>None\<close> exactly when \<open>geopy_location\<close> is \<open>None\<close>, and so is
  \<open>longitude\<close>; otherwise both are the coordinates of the geopy location. So one is never
  defined without the other.
\<close>

theorem latitude_longitude_together:
  "(latitude self = None) = (geopy_location self = None) \<and>
   (longitude self = None) = (geopy_location self = None) \<and>
   latitude self = map_option geopy_latitude (geopy_location self) \<and>
   longitude self = map_option geopy_longitude (geopy_location self)"
  by (cases "geopy_location self") (simp_all add: latitude_def longitude_def)

text \<open>
  C9. On the empty list, \<open>to_csv\<close> raises \<open>IndexError\<close> at \<open>csv_data[0]\<close> once the output
  file has been opened (if \<open>open\<close> itself raises, that exception comes first), and
  \<open>generate_google_maps_url_for_ios\<close> and \<open>plot_locations_on_map\<close>, called without a
  start or centre location, raise \<open>IndexError\<close> at \<open>locations[0]\<close>.
\<close>

theorem exporters_reject_empty_list:
  "snd (to_csv open_w [] output_path fs) =
     Inl (case open_w output_path of
            None \<Rightarrow> IndexError ''list index out of range''
          | Some e \<Rightarrow> e) \<and>
   generate_google_maps_url_for_ios fmt [] None =
     Inl (IndexError ''list index out of range'') \<and>
   plot_locations_on_map lib [] None map_path =
     Inl (IndexError ''list index out of range'')"
  by (simp add: to_csv_def getitem_def generate_google_maps_url_for_ios_def
        plot_locations_on_map_def split: option.splits)

lemma writerows_unstructure:
  "writerows [''address'', ''city'', ''name''] (map unstructure locations) written =
     (written @ map (\<lambda>l. [address l, city l, (case name l of None \<Rightarrow> [] | Some n \<Rightarrow> n)])
                  locations,
      Inr ())"
  by (induction locations arbitrary: written)
     (simp_all add: unstructure_def dict_to_list_def split: option.splits)

text \<open>
  C5 (as amended). For a non-empty list of locations and an output file that can be
  opened, \<open>to_csv\<close> returns normally and the file holds the header row
  \<open>address, city, name\<close> followed by exactly one row per location, in order, with the
  location's address, city and name (empty when the name is \<open>None\<close>); there is no column
  for \<open>geopy_location\<close>.
\<close>

theorem to_csv_rows:
  assumes "locations \<noteq> []" and "open_w output_path = None"
  shows "to_csv open_w locations output_path fs =
     (fs(output_path \<mapsto>
        [''address'', ''city'', ''name''] #
        map (\<lambda>l. [address l, city l, (case name l of None \<Rightarrow> [] | Some n \<Rightarrow> n)]) locations),
      Inr ())"
proof -
  from assms(1) obtain l ls where "locations = l # ls" by (cases locations) auto
  then have "getitem (map unstructure locations) 0 = Inr (unstructure l)"
    by (simp add: getitem_def)
  moreover have "map fst (unstructure l) = [''address'', ''city'', ''name'']"
    by (simp add: unstructure_def)
  ultimately show ?thesis
    using assms(2) by (simp add: to_csv_def Let_def writerows_unstructure)
qed

theorem to_csv_rows_witness:
  "to_csv open_ok
     [\<lparr>address = ''515 W Hastings St'', city = ''Vancouver'',
       geopy_location = Some demo_geopy, name = Some ''Harbour Centre''\<rparr>,
      \<lparr>address = ''355 Burrard St'', city = ''Vancouver'',
       geopy_location = None, name = None\<rparr>]
     ''./locations.csv'' no_files =
     (no_files(''./locations.csv'' \<mapsto>
        [[''address'', ''city'', ''name''],
         [''515 W Hastings St'', ''Vancouver'', ''Harbour Centre''],
         [''355 Burrard St'', ''Vancouver'', []]]),
      Inr ())"
  using to_csv_rows [of
     "[\<lparr>address = ''515 W Hastings St'', city = ''Vancouver'',
        geopy_location = Some demo_geopy, name = Some ''Harbour Centre''\<rparr>,
       \<lparr>address = ''355 Burrard St'', city = ''Vancouver'',
        geopy_location = None, name = None\<rparr>]" open_ok "''./locations.csv''" no_files]
  by (simp add: open_ok_def)

text \<open>
  C5 as stated fails on the empty list: \<open>to_csv\<close> raises \<open>IndexError\<close> and leaves the
  file empty, without a header row.
\<close>

theorem to_csv_empty_counterexample:
  "snd (to_csv open_ok ([] :: string Location list) ''./locations.csv'' no_files) =
     Inl (IndexError ''list index out of range'') \<and>
   fst (to_csv open_ok ([] :: string Location list) ''./locations.csv'' no_files)
     ''./locations.csv'' = Some []"
  by (simp add: to_csv_def getitem_def open_ok_def)

end
